theory Spec2Isabelle
  imports Complex_Main "HOL-Library.Monad_Syntax"
begin

section \<open>Values at run time\<close>

text \<open>
  The component \<^verbatim>\<open>AdminDashboard\<close> of \<^verbatim>\<open>src/components/AdminDashboard.tsx\<close>.

  \<^verbatim>\<open>response.json()\<close> resolves to \<^verbatim>\<open>any\<close> (line 31) and line 32 stores what it finds
  under \<^verbatim>\<open>data\<close> with no check, so the state cell \<^verbatim>\<open>entries\<close> holds, at run time, any
  value that JSON can denote. A number is the value of a double: finite, or one of the
  infinities that \<^verbatim>\<open>JSON.parse\<close> gives for a literal out of range. An object is the list
  of its properties; the first pair with a key is the property of that key.
\<close>

datatype number = Finite real | PosInfinity | NegInfinity

datatype js =
    JUndefined
  | JNull
  | JBool bool
  | JNumber number
  | JString string
  | JArray "js list"
  | JObject "(string \<times> js) list"

text \<open>
  The operand test of \<^verbatim>\<open>||\<close> and \<^verbatim>\<open>&&\<close>: \<^verbatim>\<open>undefined\<close>, \<^verbatim>\<open>null\<close>, \<^verbatim>\<open>false\<close>, zero and
  the empty string are falsy, every other value is truthy.
\<close>

fun truthy :: "js \<Rightarrow> bool" where
  "truthy JUndefined = False"
| "truthy JNull = False"
| "truthy (JBool b) = b"
| "truthy (JNumber n) = (n \<noteq> Finite 0)"
| "truthy (JString s) = (s \<noteq> [])"
| "truthy (JArray xs) = True"
| "truthy (JObject kvs) = True"

text \<open>
  Reading a property, \<^verbatim>\<open>v.k\<close>, for the keys the component reads from parsed JSON
  (\<^verbatim>\<open>data\<close>, \<^verbatim>\<open>id\<close>, \<^verbatim>\<open>name\<close>, \<^verbatim>\<open>email\<close>, \<^verbatim>\<open>occupation\<close>, \<^verbatim>\<open>role\<close>, \<^verbatim>\<open>created_at\<close>; none
  of them is a built-in property of a string, a number, a boolean or an array). \<open>None\<close>
  is the TypeError of reading a property of \<^verbatim>\<open>null\<close> or \<^verbatim>\<open>undefined\<close>.
\<close>

fun property :: "string \<Rightarrow> js \<Rightarrow> js option" where
  "property k JUndefined = None"
| "property k JNull = None"
| "property k (JBool b) = Some JUndefined"
| "property k (JNumber n) = Some JUndefined"
| "property k (JString s) = Some JUndefined"
| "property k (JArray xs) = Some JUndefined"
| "property k (JObject kvs) = Some (case map_of kvs k of None \<Rightarrow> JUndefined | Some v \<Rightarrow> v)"

text \<open>
  The interface of lines 6-13, the shape the component expects of each element of
  \<^verbatim>\<open>entries\<close>, and the object that has this shape. The field \<^verbatim>\<open>id\<close> is written \<open>id'\<close>.
\<close>

record WaitlistEntry =
  id' :: int
  name :: string
  email :: string
  occupation :: string
  role :: string
  created_at :: string

definition entry_js :: "WaitlistEntry \<Rightarrow> js" where
  "entry_js e =
     JObject
       [(''id'', JNumber (Finite (of_int (id' e)))),
        (''name'', JString (name e)),
        (''email'', JString (email e)),
        (''occupation'', JString (occupation e)),
        (''role'', JString (role e)),
        (''created_at'', JString (created_at e))]"

section \<open>The state\<close>

text \<open>The three \<^verbatim>\<open>useState\<close> cells of lines 16-18; \<^verbatim>\<open>entries\<close> starts as the empty array.\<close>

record dashboard_state =
  entries :: js
  loading :: bool
  error :: "string option"

definition initial_state :: dashboard_state where
  "initial_state = \<lparr>entries = JArray [], loading = True, error = None\<rparr>"

definition setEntries :: "js \<Rightarrow> dashboard_state \<Rightarrow> dashboard_state" where
  "setEntries v s = s\<lparr>entries := v\<rparr>"

definition setLoading :: "bool \<Rightarrow> dashboard_state \<Rightarrow> dashboard_state" where
  "setLoading b s = s\<lparr>loading := b\<rparr>"

definition setError :: "string option \<Rightarrow> dashboard_state \<Rightarrow> dashboard_state" where
  "setError e s = s\<lparr>error := e\<rparr>"

section \<open>Derived stats\<close>

text \<open>
  Lines 45-49, recomputed from \<^verbatim>\<open>entries\<close> on every render. \<^verbatim>\<open>filter\<close> exists on arrays
  only, and its callback reads \<^verbatim>\<open>e.role\<close> of every element: \<open>None\<close> is the TypeError
  raised when \<^verbatim>\<open>entries\<close> is not an array or holds an element whose property cannot be
  read. \<^verbatim>\<open>===\<close> holds only of the string itself.
\<close>

record Stats =
  total :: nat
  eventPlanners :: nat
  vendors :: nat

fun stats :: "js \<Rightarrow> Stats option" where
  "stats (JArray es) =
     (if list_all (\<lambda>e. property ''role'' e \<noteq> None) es
      then Some
        \<lparr>total = length es,
         eventPlanners =
           length (filter (\<lambda>e. property ''role'' e = Some (JString ''event-planner'')) es),
         vendors = length (filter (\<lambda>e. property ''role'' e = Some (JString ''vendor'')) es)\<rparr>
      else None)"
| "stats JUndefined = None"
| "stats JNull = None"
| "stats (JBool b) = None"
| "stats (JNumber n) = None"
| "stats (JString s) = None"
| "stats (JObject kvs) = None"

section \<open>The request and its outcomes\<close>

text \<open>
  A response carries its status and the outcome of \<^verbatim>\<open>response.json()\<close>: \<open>Inl m\<close> when
  the promise rejects with an error whose message is \<open>m\<close> (an unparseable body),
  \<open>Inr v\<close> when it resolves to \<open>v\<close>. \<^verbatim>\<open>response.ok\<close> is true for the statuses 200-299.
\<close>

record response =
  status :: nat
  json :: "string + js"

definition ok :: "response \<Rightarrow> bool" where
  "ok r = (200 \<le> status r \<and> status r \<le> 299)"

text \<open>
  \<^verbatim>\<open>await fetch(...)\<close> either rejects (a network error with a message) or resolves
  to a response.
\<close>

datatype fetch_outcome = Rejects string | Resolves response

text \<open>\<^verbatim>\<open>data.data || []\<close>, given what \<^verbatim>\<open>data.data\<close> is.\<close>

definition data_or_empty :: "js \<Rightarrow> js" where
  "data_or_empty d = (if truthy d then d else JArray [])"

text \<open>
  The \<^verbatim>\<open>try\<close> block of lines 24-32 after the request has settled: \<open>Inl m\<close> is an
  exception with message \<open>m\<close> reaching the \<^verbatim>\<open>catch\<close>, \<open>Inr v\<close> the argument of
  \<^verbatim>\<open>setEntries\<close>. The message of the TypeError of reading \<^verbatim>\<open>data\<close> from \<^verbatim>\<open>null\<close> is
  worded by the JavaScript engine, so it is the parameter \<open>tmsg\<close>.
\<close>

definition try_block :: "string \<Rightarrow> fetch_outcome \<Rightarrow> string + js" where
  "try_block tmsg out =
     (case out of
        Rejects m \<Rightarrow> Inl m
      | Resolves r \<Rightarrow>
          if \<not> ok r then Inl ''Failed to fetch waitlist''
          else (case json r of
                  Inl m \<Rightarrow> Inl m
                | Inr v \<Rightarrow>
                    (case property ''data'' v of
                       None \<Rightarrow> Inl tmsg
                     | Some d \<Rightarrow> Inr (data_or_empty d))))"

text \<open>
  \<^verbatim>\<open>fetchWaitlist\<close> runs in two parts. Lines 21-25 run at the call, up to the first
  \<^verbatim>\<open>await\<close>; lines 27-38 run when the request has settled. The log of line 35
  writes to the console and touches no state; it is left out.
\<close>

definition fetchWaitlist_begin :: "dashboard_state \<Rightarrow> dashboard_state" where
  "fetchWaitlist_begin s = setError None (setLoading True s)"

definition fetchWaitlist_settle ::
  "string \<Rightarrow> fetch_outcome \<Rightarrow> dashboard_state \<Rightarrow> dashboard_state" where
  "fetchWaitlist_settle tmsg out s =
     setLoading False
       (case try_block tmsg out of
          Inr v \<Rightarrow> setEntries v s
        | Inl m \<Rightarrow> setError (Some m) s)"

definition fetchWaitlist ::
  "string \<Rightarrow> fetch_outcome \<Rightarrow> dashboard_state \<Rightarrow> dashboard_state" where
  "fetchWaitlist tmsg out s = fetchWaitlist_settle tmsg out (fetchWaitlist_begin s)"

text \<open>
  The outcomes that end in the \<^verbatim>\<open>catch\<close> block: a response that is not ok; a
  rejected request or a body that does not parse; a parsed body whose \<^verbatim>\<open>data\<close> cannot be
  read.
\<close>

fun http_failure :: "fetch_outcome \<Rightarrow> bool" where
  "http_failure (Resolves r) = (\<not> ok r)"
| "http_failure (Rejects m) = False"

fun network_or_parse_exception :: "fetch_outcome \<Rightarrow> bool" where
  "network_or_parse_exception (Rejects m) = True"
| "network_or_parse_exception (Resolves r) =
     (ok r \<and> (case json r of Inl m \<Rightarrow> True | Inr v \<Rightarrow> False))"

fun data_read_exception :: "fetch_outcome \<Rightarrow> bool" where
  "data_read_exception (Rejects m) = False"
| "data_read_exception (Resolves r) =
     (ok r \<and> (case json r of Inl m \<Rightarrow> False | Inr v \<Rightarrow> property ''data'' v = None))"

fun raises :: "fetch_outcome \<Rightarrow> bool" where
  "raises (Rejects m) = True"
| "raises (Resolves r) =
     (ok r \<and> (case json r of Inl m \<Rightarrow> True | Inr v \<Rightarrow> property ''data'' v = None))"

section \<open>The rendered view\<close>

text \<open>
  \<^verbatim>\<open>formatDate\<close> (lines 51-59) formats in the host's time zone, and the template of
  line 175 converts its operand to a string; both are kept symbolic.
\<close>

datatype date_text = formatDate js

datatype href = mailto js

text \<open>
  One table row, lines 171-195, with the values the component puts into it, in the
  order it reads them; \<open>None\<close> when a read raises.
\<close>

record table_row =
  row_key :: js
  name_cell :: js
  mailto_href :: href
  email_cell :: js
  occupation_cell :: js
  badge_class :: string
  role_label :: string
  joined_cell :: date_text

definition tableRow :: "js \<Rightarrow> table_row option" where
  "tableRow entry =
     do {
       i \<leftarrow> property ''id'' entry;
       n \<leftarrow> property ''name'' entry;
       m \<leftarrow> property ''email'' entry;
       p \<leftarrow> property ''occupation'' entry;
       r \<leftarrow> property ''role'' entry;
       c \<leftarrow> property ''created_at'' entry;
       Some
         \<lparr>row_key = i,
          name_cell = n,
          mailto_href = mailto m,
          email_cell = m,
          occupation_cell = p,
          badge_class =
            (if r = JString ''event-planner'' then ''bg-green-100 text-green-800''
             else ''bg-purple-100 text-purple-800''),
          role_label = (if r = JString ''event-planner'' then ''Event Planner'' else ''Vendor''),
          joined_cell = formatDate c\<rparr>
     }"

text \<open>\<^verbatim>\<open>entries.map(...)\<close> of line 170.\<close>

fun tableRows :: "js list \<Rightarrow> table_row list option" where
  "tableRows [] = Some []"
| "tableRows (e # es) =
     (case tableRow e of
        None \<Rightarrow> None
      | Some r \<Rightarrow> (case tableRows es of None \<Rightarrow> None | Some rs \<Rightarrow> Some (r # rs)))"

datatype table_body = EmptyState | Table "table_row list"

text \<open>
  What a call of the component gives: the TypeError of lines 45-49 or 170-195, the
  spinner of lines 61-70, or the page of lines 72-204 with its stats cards, the error
  banner when it is rendered (with its message and the "Try Again" button), and the card
  holding the "Refresh" button and the table body.
\<close>

datatype view = RenderThrows | LoadingSpinner | Dashboard Stats "string option" table_body

text \<open>\<^verbatim>\<open>error && (...)\<close>: \<^verbatim>\<open>null\<close> and the empty string render nothing.\<close>

fun error_banner :: "string option \<Rightarrow> string option" where
  "error_banner None = None"
| "error_banner (Some m) = (if m = [] then None else Some m)"

text \<open>Lines 72-204, for \<^verbatim>\<open>entries\<close> an array with the stats \<open>c\<close>.\<close>

definition page :: "Stats \<Rightarrow> string option \<Rightarrow> js list \<Rightarrow> view" where
  "page c err es =
     (if length es = 0 then Dashboard c (error_banner err) EmptyState
      else (case tableRows es of
              None \<Rightarrow> RenderThrows
            | Some rs \<Rightarrow> Dashboard c (error_banner err) (Table rs)))"

text \<open>
  The component. The stats come first, so their TypeError comes before the test of
  \<^verbatim>\<open>loading\<close>: on a value that is not an array line 47 raises, on an array \<open>stats\<close>
  says whether it does.
\<close>

definition AdminDashboard :: "dashboard_state \<Rightarrow> view" where
  "AdminDashboard s =
     (case entries s of
        JArray es \<Rightarrow>
          (case stats (JArray es) of
             None \<Rightarrow> RenderThrows
           | Some c \<Rightarrow> if loading s then LoadingSpinner else page c (error s) es)
      | JUndefined \<Rightarrow> RenderThrows
      | JNull \<Rightarrow> RenderThrows
      | JBool b \<Rightarrow> RenderThrows
      | JNumber n \<Rightarrow> RenderThrows
      | JString t \<Rightarrow> RenderThrows
      | JObject kvs \<Rightarrow> RenderThrows)"


fun shows_error_banner :: "view \<Rightarrow> bool" where
  "shows_error_banner LoadingSpinner = False"
| "shows_error_banner (Dashboard c b t) = (b \<noteq> None)"
| "shows_error_banner RenderThrows = False"


fun shows_empty_state :: "view \<Rightarrow> bool" where
  "shows_empty_state LoadingSpinner = False"
| "shows_empty_state (Dashboard c b t) = (t = EmptyState)"
| "shows_empty_state RenderThrows = False"

fun shown_labels :: "view \<Rightarrow> string list" where
  "shown_labels LoadingSpinner = []"
| "shown_labels (Dashboard c b EmptyState) = []"
| "shown_labels (Dashboard c b (Table rows)) = map role_label rows"
| "shown_labels RenderThrows = []"

fun shown_stats :: "view \<Rightarrow> Stats option" where
  "shown_stats LoadingSpinner = None"
| "shown_stats (Dashboard c b t) = Some c"
| "shown_stats RenderThrows = None"

section \<open>The component over time\<close>

text \<open>
  The mounted component: its state, whether the effect of lines 41-43 has run (its
  dependency list is empty, so it runs once, after the first render), and how many calls
  of \<^verbatim>\<open>fetchWaitlist\<close> have been made and how many of their requests have settled.
\<close>

record component =
  state :: dashboard_state
  effect_ran :: bool
  issued :: nat
  settled :: nat

definition initial_component :: component where
  "initial_component = \<lparr>state = initial_state, effect_ran = False, issued = 0, settled = 0\<rparr>"

datatype button = Refresh | TryAgain

datatype event = Mount | Click button | Settle fetch_outcome

text \<open>
  The buttons of the rendered view (lines 129-136 and 145-147); a render that raised
  leaves none.
\<close>

fun buttons :: "view \<Rightarrow> button list" where
  "buttons LoadingSpinner = []"
| "buttons (Dashboard c None t) = [Refresh]"
| "buttons (Dashboard c (Some m) t) = [TryAgain, Refresh]"
| "buttons RenderThrows = []"

definition call_fetchWaitlist :: "component \<Rightarrow> component" where
  "call_fetchWaitlist c =
     c\<lparr>state := fetchWaitlist_begin (state c), issued := Suc (issued c)\<rparr>"

text \<open>
  One event; \<open>None\<close> when it cannot happen: the effect has already run, the button is
  not on the page, or no request is in flight.
\<close>

fun step :: "string \<Rightarrow> event \<Rightarrow> component \<Rightarrow> component option" where
  "step tmsg Mount c =
     (if effect_ran c then None else Some (call_fetchWaitlist (c\<lparr>effect_ran := True\<rparr>)))"
| "step tmsg (Click b) c =
     (if b \<in> set (buttons (AdminDashboard (state c))) then Some (call_fetchWaitlist c)
      else None)"
| "step tmsg (Settle out) c =
     (if settled c < issued c
      then Some (c\<lparr>state := fetchWaitlist_settle tmsg out (state c),
                   settled := Suc (settled c)\<rparr>)
      else None)"

fun run :: "string \<Rightarrow> event list \<Rightarrow> component \<Rightarrow> component option" where
  "run tmsg [] c = Some c"
| "run tmsg (e # es) c = (case step tmsg e c of None \<Rightarrow> None | Some c' \<Rightarrow> run tmsg es c')"

fun is_click :: "event \<Rightarrow> bool" where
  "is_click (Click b) = True"
| "is_click Mount = False"
| "is_click (Settle out) = False"

section \<open>Sample values\<close>

definition planner_entry :: WaitlistEntry where
  "planner_entry =
     \<lparr>id' = 1, name = ''Ada'', email = ''ada@example.org'', occupation = ''Planner'',
      role = ''event-planner'', created_at = ''2024-01-01T00:00:00Z''\<rparr>"

definition caterer_entry :: WaitlistEntry where
  "caterer_entry =
     \<lparr>id' = 2, name = ''Bo'', email = ''bo@example.org'', occupation = ''Chef'',
      role = ''caterer'', created_at = ''2024-01-02T00:00:00Z''\<rparr>"

text \<open>The message of one engine for reading \<^verbatim>\<open>data\<close> of \<^verbatim>\<open>null\<close>.\<close>

definition null_read_message :: string where
  "null_read_message = ''Cannot read properties of null (reading 'data')''"

lemmas fetch_defs =
  fetchWaitlist_def fetchWaitlist_settle_def fetchWaitlist_begin_def try_block_def
  setEntries_def setLoading_def setError_def

section \<open>Entries of the expected shape\<close>

lemma property_entry_js:
  "property ''role'' (entry_js e) = Some (JString (role e))"
  by (simp add: entry_js_def)

lemma stats_entries:
  "stats (JArray (map entry_js es))
     = Some \<lparr>total = length es,
             eventPlanners = count_list (map role es) ''event-planner'',
             vendors = count_list (map role es) ''vendor''\<rparr>"
proof -
  have r: "list_all (\<lambda>e. property ''role'' e \<noteq> None) (map entry_js es)"
    by (simp add: list_all_iff property_entry_js)
  have c: "length (filter (\<lambda>e. property ''role'' e = Some (JString k)) (map entry_js es))
      = count_list (map role es) k" for k
    by (induction es) (simp_all add: property_entry_js)
  from r c show ?thesis by simp
qed

lemma tableRow_entry_js:
  "\<exists>r. tableRow (entry_js e) = Some r
     \<and> role_label r = (if role e = ''event-planner'' then ''Event Planner'' else ''Vendor'')"
  by (simp add: tableRow_def entry_js_def)

lemma tableRows_entries:
  "\<exists>rs. tableRows (map entry_js es) = Some rs
     \<and> map role_label rs
         = map (\<lambda>e. if role e = ''event-planner'' then ''Event Planner'' else ''Vendor'') es"
proof (induction es)
  case Nil
  then show ?case by simp
next
  case (Cons e es)
  from tableRow_entry_js [of e] Cons show ?case by auto
qed

section \<open>Rendering a state whose stats exist\<close>

lemma tableRow_readable:
  "property ''role'' e \<noteq> None \<Longrightarrow> \<exists>r. tableRow e = Some r"
  by (cases e) (simp_all add: tableRow_def)

lemma tableRows_readable:
  "list_all (\<lambda>e. property ''role'' e \<noteq> None) es \<Longrightarrow> \<exists>rs. tableRows es = Some rs"
proof (induction es)
  case Nil
  then show ?case by simp
next
  case (Cons e es)
  then show ?case using tableRow_readable [of e] by auto
qed

lemma stats_Some_array:
  assumes "stats v = Some c"
  shows "\<exists>es. v = JArray es \<and> list_all (\<lambda>e. property ''role'' e \<noteq> None) es"
  using assms by (cases v) (simp_all split: if_splits)

lemma render_with_stats:
  assumes "stats (entries s) = Some c"
  shows "(loading s \<longrightarrow> AdminDashboard s = LoadingSpinner)
    \<and> (\<not> loading s \<longrightarrow> (\<exists>t. AdminDashboard s = Dashboard c (error_banner (error s)) t))"
proof -
  from stats_Some_array [OF assms] obtain es
    where es: "entries s = JArray es" and r: "list_all (\<lambda>e. property ''role'' e \<noteq> None) es"
    by blast
  from tableRows_readable [OF r] obtain rs where rs: "tableRows es = Some rs" by blast
  from assms es rs show ?thesis
    by (simp add: AdminDashboard_def page_def)
qed


lemma render_without_stats: "stats (entries s) = None \<Longrightarrow> AdminDashboard s = RenderThrows"
  by (cases "entries s") (simp_all add: AdminDashboard_def del: stats.simps)

section \<open>Derived stats: the counts\<close>

text \<open>
  C1. For every collection of entries, \<open>total\<close> is the number of entries,
  \<open>eventPlanners\<close> the number of entries whose role is "event-planner" and \<open>vendors\<close>
  the number of entries whose role is "vendor". For three entries with the roles
  event-planner, vendor, vendor (whatever their other fields), delivered by a successful
  response, the stats are 3, 1 and 2.
\<close>

theorem stats_counts:
  "stats (JArray (map entry_js es))
     = Some \<lparr>total = length es,
             eventPlanners = count_list (map role es) ''event-planner'',
             vendors = count_list (map role es) ''vendor''\<rparr>
   \<and> stats (entries (fetchWaitlist tmsg
        (Resolves \<lparr>status = 200, json = Inr (JObject [(''data'', JArray
           [entry_js \<lparr>id' = 1, name = n1, email = m1, occupation = o1,
              role = ''event-planner'', created_at = c1\<rparr>,
            entry_js \<lparr>id' = 2, name = n2, email = m2, occupation = o2,
              role = ''vendor'', created_at = c2\<rparr>,
            entry_js \<lparr>id' = 3, name = n3, email = m3, occupation = o3,
              role = ''vendor'', created_at = c3\<rparr>])])\<rparr>) s))
       = Some \<lparr>total = 3, eventPlanners = 1, vendors = 2\<rparr>"
proof -
  let ?es = "[\<lparr>id' = 1, name = n1, email = m1, occupation = o1,
              role = ''event-planner'', created_at = c1\<rparr>,
            \<lparr>id' = 2, name = n2, email = m2, occupation = o2,
              role = ''vendor'', created_at = c2\<rparr>,
            \<lparr>id' = 3, name = n3, email = m3, occupation = o3,
              role = ''vendor'', created_at = c3\<rparr>]"
  have "entries (fetchWaitlist tmsg
        (Resolves \<lparr>status = 200, json = Inr (JObject [(''data'', JArray (map entry_js ?es))])\<rparr>) s)
      = JArray (map entry_js ?es)"
    by (simp add: fetch_defs ok_def data_or_empty_def)
  then have "stats (entries (fetchWaitlist tmsg
        (Resolves \<lparr>status = 200, json = Inr (JObject [(''data'', JArray (map entry_js ?es))])\<rparr>) s))
      = Some \<lparr>total = 3, eventPlanners = 1, vendors = 2\<rparr>"
    by (simp only: stats_entries) simp
  then show ?thesis by (simp add: stats_entries del: stats.simps)
qed

section \<open>A request that fails\<close>

lemma try_block_failure:
  "http_failure out \<or> raises out \<Longrightarrow> \<exists>m. try_block tmsg out = Inl m"
  by (cases out) (auto simp: try_block_def split: sum.splits option.splits)

text \<open>
  C2. When the request fails (a response whose status is not 2xx, a rejected request, a
  body that does not parse, or a parsed body whose \<^verbatim>\<open>data\<close> cannot be read), the call
  of \<^verbatim>\<open>fetchWaitlist\<close> ends with \<open>error\<close> set to a message, \<open>loading\<close> false and
  \<open>entries\<close> as they were before the call. The part that runs when the request
  settles leaves \<open>entries\<close> alone whatever the state it finds.
\<close>

theorem fetch_failure_state:
  assumes "http_failure out \<or> raises out"
  shows "error (fetchWaitlist tmsg out s) \<noteq> None
    \<and> \<not> loading (fetchWaitlist tmsg out s)
    \<and> entries (fetchWaitlist tmsg out s) = entries s
    \<and> entries (fetchWaitlist_settle tmsg out s') = entries s'"
proof -
  from assms obtain m where m: "try_block tmsg out = Inl m"
    using try_block_failure by blast
  then show ?thesis
    by (simp add: fetchWaitlist_def fetchWaitlist_settle_def fetchWaitlist_begin_def
        setLoading_def setError_def)
qed

theorem fetch_failure_state_witness:
  "http_failure (Resolves \<lparr>status = 500, json = Inl ''Unexpected end of JSON input''\<rparr>)
   \<and> fetchWaitlist null_read_message
       (Resolves \<lparr>status = 500, json = Inl ''Unexpected end of JSON input''\<rparr>)
       \<lparr>entries = JArray [entry_js planner_entry], loading = False, error = None\<rparr>
     = \<lparr>entries = JArray [entry_js planner_entry], loading = False,
        error = Some ''Failed to fetch waitlist''\<rparr>"
  using fetch_failure_state
    [of "Resolves \<lparr>status = 500, json = Inl ''Unexpected end of JSON input''\<rparr>"
      null_read_message
      "\<lparr>entries = JArray [entry_js planner_entry], loading = False, error = None\<rparr>"]
  by (simp add: fetch_defs ok_def)

section \<open>What is rendered\<close>




section \<open>A request that succeeds\<close>

text \<open>
  C4, as the specification states it, fails twice. A response with status 200 whose
  body is the JSON value \<^verbatim>\<open>null\<close> parses, yet reading \<^verbatim>\<open>data\<close> from it raises: the
  entries loaded before stay, the error is set and the empty-state placeholder is not
  shown. And a \<^verbatim>\<open>data\<close> field that is 0 is not what \<open>entries\<close> is set to: they become
  the empty array.
\<close>

theorem null_body_counterexample:
  "ok \<lparr>status = 200, json = Inr JNull\<rparr>
   \<and> fetchWaitlist null_read_message (Resolves \<lparr>status = 200, json = Inr JNull\<rparr>)
       \<lparr>entries = JArray [entry_js planner_entry], loading = False, error = None\<rparr>
     = \<lparr>entries = JArray [entry_js planner_entry], loading = False,
        error = Some null_read_message\<rparr>
   \<and> \<not> shows_empty_state (AdminDashboard
       (fetchWaitlist null_read_message (Resolves \<lparr>status = 200, json = Inr JNull\<rparr>)
          \<lparr>entries = JArray [entry_js planner_entry], loading = False, error = None\<rparr>))
   \<and> entries (fetchWaitlist null_read_message
        (Resolves \<lparr>status = 200, json = Inr (JObject [(''data'', JNumber (Finite 0))])\<rparr>)
        initial_state) = JArray []
   \<and> JArray [] \<noteq> JNumber (Finite 0)"
  by (simp add: fetch_defs ok_def AdminDashboard_def page_def data_or_empty_def
      initial_state_def tableRow_def entry_js_def)

lemma property_data_Some:
  "v \<noteq> JNull \<Longrightarrow> v \<noteq> JUndefined \<Longrightarrow> \<exists>d. property ''data'' v = Some d"
  by (cases v) simp_all

lemma falsy_values:
  "(\<not> truthy d)
     = (d = JUndefined \<or> d = JNull \<or> d = JBool False \<or> d = JNumber (Finite 0) \<or> d = JString [])"
  by (cases d) auto

text \<open>
  C4, amended. For a 2xx response whose body parses to a JSON value other than
  \<^verbatim>\<open>null\<close>: \<open>entries\<close> is set to the \<^verbatim>\<open>data\<close> field when that is truthy; when
  \<^verbatim>\<open>data\<close> is absent, \<^verbatim>\<open>null\<close> or another falsy value (\<^verbatim>\<open>false\<close>, 0, the empty string),
  \<open>entries\<close> becomes the empty array and the empty-state placeholder is shown. Every
  value is of one of the two kinds.
\<close>

theorem success_sets_entries:
  assumes "ok r" and "json r = Inr v" and "v \<noteq> JNull" and "v \<noteq> JUndefined"
  shows "\<exists>d. property ''data'' v = Some d
    \<and> (truthy d \<longrightarrow> entries (fetchWaitlist tmsg (Resolves r) s) = d)
    \<and> (d = JUndefined \<or> d = JNull \<or> d = JBool False \<or> d = JNumber (Finite 0) \<or> d = JString []
        \<longrightarrow> entries (fetchWaitlist tmsg (Resolves r) s) = JArray []
          \<and> shows_empty_state (AdminDashboard (fetchWaitlist tmsg (Resolves r) s)))
    \<and> truthy d
        = (d \<noteq> JUndefined \<and> d \<noteq> JNull \<and> d \<noteq> JBool False \<and> d \<noteq> JNumber (Finite 0)
           \<and> d \<noteq> JString [])"
proof -
  from property_data_Some [OF assms(3,4)] obtain d where d: "property ''data'' v = Some d"
    by blast
  have stored: "fetchWaitlist tmsg (Resolves r) s
      = \<lparr>entries = data_or_empty d, loading = False, error = None\<rparr>"
    using assms(1,2) d by (simp add: fetch_defs)
  have t: "truthy d \<Longrightarrow> entries (fetchWaitlist tmsg (Resolves r) s) = d"
    by (simp add: stored data_or_empty_def)
  have f: "entries (fetchWaitlist tmsg (Resolves r) s) = JArray []
      \<and> shows_empty_state (AdminDashboard (fetchWaitlist tmsg (Resolves r) s))"
    if "\<not> truthy d"
    using that by (simp add: stored data_or_empty_def AdminDashboard_def page_def)
  from d t f falsy_values [of d] show ?thesis by blast
qed

theorem success_sets_entries_witness:
  "ok \<lparr>status = 200, json = Inr (JObject [])\<rparr>
   \<and> property ''data'' (JObject []) = Some JUndefined
   \<and> AdminDashboard (fetchWaitlist null_read_message
        (Resolves \<lparr>status = 200, json = Inr (JObject [])\<rparr>)
        \<lparr>entries = JArray [entry_js planner_entry], loading = False, error = None\<rparr>)
     = Dashboard \<lparr>total = 0, eventPlanners = 0, vendors = 0\<rparr> None EmptyState
   \<and> property ''data'' (JObject [(''data'', JString ''abc'')]) = Some (JString ''abc'')
   \<and> truthy (JString ''abc'')
   \<and> entries (fetchWaitlist null_read_message
        (Resolves \<lparr>status = 200, json = Inr (JObject [(''data'', JString ''abc'')])\<rparr>)
        \<lparr>entries = JArray [entry_js planner_entry], loading = False, error = None\<rparr>)
     = JString ''abc''"
  using
    success_sets_entries [of "\<lparr>status = 200, json = Inr (JObject [])\<rparr>" "JObject []"
      null_read_message
      "\<lparr>entries = JArray [entry_js planner_entry], loading = False, error = None\<rparr>"]
    success_sets_entries [of "\<lparr>status = 200, json = Inr (JObject [(''data'', JString ''abc'')])\<rparr>"
      "JObject [(''data'', JString ''abc'')]" null_read_message
      "\<lparr>entries = JArray [entry_js planner_entry], loading = False, error = None\<rparr>"]
  by (simp add: fetch_defs ok_def AdminDashboard_def page_def data_or_empty_def)

section \<open>The life of one call\<close>




section \<open>Entries with another role\<close>

lemma shown_labels_entries:
  "shown_labels (AdminDashboard \<lparr>entries = JArray (map entry_js es), loading = False, error = err\<rparr>)
     = map (\<lambda>e. if role e = ''event-planner'' then ''Event Planner'' else ''Vendor'') es"
proof -
  from tableRows_entries [of es] obtain rs where rs: "tableRows (map entry_js es) = Some rs"
    and l: "map role_label rs
      = map (\<lambda>e. if role e = ''event-planner'' then ''Event Planner'' else ''Vendor'') es"
    by blast
  show ?thesis
  proof (cases es)
    case Nil
    then show ?thesis by (simp add: AdminDashboard_def page_def)
  next
    case (Cons e es')
    have "stats (JArray (map entry_js es)) \<noteq> None"
      by (simp add: stats_entries del: stats.simps)
    then obtain c where "stats (JArray (map entry_js es)) = Some c" by blast
    with rs l Cons show ?thesis
      by (simp add: AdminDashboard_def page_def del: stats.simps)
  qed
qed

text \<open>
  C6. An entry whose role is neither "event-planner" nor "vendor", at any place of the
  collection, adds one to \<open>total\<close> and nothing to \<open>eventPlanners\<close> or \<open>vendors\<close>; its
  row of the table carries the label "Vendor". The stats cards of the rendered page are
  the stats of the entries of the state, whatever its error.
\<close>

theorem other_role_counts:
  assumes "role e \<noteq> ''event-planner''" and "role e \<noteq> ''vendor''"
  shows "\<exists>c c'. stats (JArray (map entry_js (xs @ ys))) = Some c
      \<and> stats (JArray (map entry_js (xs @ e # ys))) = Some c'
      \<and> total c' = Suc (total c)
      \<and> eventPlanners c' = eventPlanners c
      \<and> vendors c' = vendors c
      \<and> shown_labels
           (AdminDashboard
              \<lparr>entries = JArray (map entry_js (xs @ e # ys)), loading = False, error = err\<rparr>)
         ! length xs = ''Vendor''
      \<and> shown_stats
           (AdminDashboard
              \<lparr>entries = JArray (map entry_js (xs @ e # ys)), loading = False, error = err\<rparr>)
         = Some c'"
proof -
  let ?c = "\<lparr>total = length (xs @ ys),
             eventPlanners = count_list (map role (xs @ ys)) ''event-planner'',
             vendors = count_list (map role (xs @ ys)) ''vendor''\<rparr>"
  let ?c' = "\<lparr>total = length (xs @ e # ys),
             eventPlanners = count_list (map role (xs @ e # ys)) ''event-planner'',
             vendors = count_list (map role (xs @ e # ys)) ''vendor''\<rparr>"
  have c: "stats (JArray (map entry_js (xs @ ys))) = Some ?c"
    by (rule stats_entries)
  have c': "stats (JArray (map entry_js (xs @ e # ys))) = Some ?c'"
    by (rule stats_entries)
  have counts: "total ?c' = Suc (total ?c) \<and> eventPlanners ?c' = eventPlanners ?c
      \<and> vendors ?c' = vendors ?c"
    using assms by simp
  have "shown_labels
           (AdminDashboard
              \<lparr>entries = JArray (map entry_js (xs @ e # ys)), loading = False, error = err\<rparr>)
      = map (\<lambda>e. if role e = ''event-planner'' then ''Event Planner'' else ''Vendor'')
          (xs @ e # ys)"
    by (rule shown_labels_entries)
  then have label: "shown_labels
           (AdminDashboard
              \<lparr>entries = JArray (map entry_js (xs @ e # ys)), loading = False, error = err\<rparr>)
         ! length xs = ''Vendor''"
    using assms by (simp add: nth_append)
  from render_with_stats [of "\<lparr>entries = JArray (map entry_js (xs @ e # ys)), loading = False,
      error = err\<rparr>" ?c'] c'
  have cards: "shown_stats
           (AdminDashboard
              \<lparr>entries = JArray (map entry_js (xs @ e # ys)), loading = False, error = err\<rparr>)
         = Some ?c'"
    by (auto simp del: stats.simps)
  from c c' counts label cards show ?thesis by blast
qed

theorem other_role_counts_witness:
  "role caterer_entry \<noteq> ''event-planner'' \<and> role caterer_entry \<noteq> ''vendor''
   \<and> stats (JArray [entry_js planner_entry])
       = Some \<lparr>total = 1, eventPlanners = 1, vendors = 0\<rparr>
   \<and> stats (JArray [entry_js planner_entry, entry_js caterer_entry])
       = Some \<lparr>total = 2, eventPlanners = 1, vendors = 0\<rparr>
   \<and> shown_labels
        (AdminDashboard
           \<lparr>entries = JArray [entry_js planner_entry, entry_js caterer_entry],
            loading = False, error = None\<rparr>)
       = [''Event Planner'', ''Vendor'']"
  using other_role_counts [of caterer_entry "[planner_entry]" "[]" None]
  by (simp add: AdminDashboard_def page_def tableRow_def entry_js_def planner_entry_def
      caterer_entry_def)

section \<open>Responses that are not 2xx\<close>



section \<open>The message of a failure\<close>

text \<open>
  C10, as the specification states it, fails: after a response with status 200 whose
  body is the JSON value \<^verbatim>\<open>null\<close> the error is the engine's message for reading
  \<^verbatim>\<open>data\<close> of \<^verbatim>\<open>null\<close>, not the fixed one, and neither the request nor the parsing of
  the body has raised.
\<close>

theorem null_body_message_counterexample:
  "ok \<lparr>status = 200, json = Inr JNull\<rparr>
   \<and> error (fetchWaitlist null_read_message (Resolves \<lparr>status = 200, json = Inr JNull\<rparr>)
        initial_state) = Some null_read_message
   \<and> null_read_message \<noteq> ''Failed to fetch waitlist''
   \<and> \<not> network_or_parse_exception (Resolves \<lparr>status = 200, json = Inr JNull\<rparr>)"
  by (simp add: fetch_defs ok_def null_read_message_def)

text \<open>
  C10, amended. After a response whose status is not 2xx the error is exactly
  "Failed to fetch waitlist". An error with another message comes only from an exception
  raised by the request or by parsing the body, or from the TypeError of reading
  \<^verbatim>\<open>data\<close> from a parsed body that is \<^verbatim>\<open>null\<close>, and is that exception's message.
\<close>

theorem http_failure_message:
  "(\<not> ok r \<longrightarrow> error (fetchWaitlist tmsg (Resolves r) s) = Some ''Failed to fetch waitlist'')
   \<and> (error (fetchWaitlist tmsg out s) = Some m \<and> m \<noteq> ''Failed to fetch waitlist''
        \<longrightarrow> network_or_parse_exception out \<or> data_read_exception out)
   \<and> error (fetchWaitlist tmsg (Rejects m) s) = Some m
   \<and> (ok r \<and> json r = Inl m \<longrightarrow> error (fetchWaitlist tmsg (Resolves r) s) = Some m)
   \<and> (ok r \<and> json r = Inr v \<and> property ''data'' v = None
        \<longrightarrow> error (fetchWaitlist tmsg (Resolves r) s) = Some tmsg)"
  by (cases out) (auto simp: fetch_defs split: sum.splits option.splits)

theorem http_failure_message_witness:
  "\<not> ok \<lparr>status = 503, json = Inr JNull\<rparr>
   \<and> error (fetchWaitlist null_read_message (Resolves \<lparr>status = 503, json = Inr JNull\<rparr>)
        initial_state) = Some ''Failed to fetch waitlist''
   \<and> error (fetchWaitlist null_read_message (Rejects ''Failed to fetch'') initial_state)
       = Some ''Failed to fetch''
   \<and> ''Failed to fetch'' \<noteq> ''Failed to fetch waitlist''
   \<and> network_or_parse_exception (Rejects ''Failed to fetch'')
   \<and> ok \<lparr>status = 200, json = Inl ''Unexpected token''\<rparr>
   \<and> error (fetchWaitlist null_read_message
        (Resolves \<lparr>status = 200, json = Inl ''Unexpected token''\<rparr>) initial_state)
       = Some ''Unexpected token''
   \<and> ok \<lparr>status = 200, json = Inr JNull\<rparr>
   \<and> property ''data'' JNull = None
   \<and> error (fetchWaitlist null_read_message
        (Resolves \<lparr>status = 200, json = Inr JNull\<rparr>) initial_state)
       = Some null_read_message"
  using
    http_failure_message [of "\<lparr>status = 503, json = Inr JNull\<rparr>" null_read_message
      initial_state "Rejects ''Failed to fetch''" "''Failed to fetch''" JNull]
    http_failure_message [of "\<lparr>status = 200, json = Inl ''Unexpected token''\<rparr>"
      null_read_message initial_state "Rejects ''Failed to fetch''" "''Unexpected token''" JNull]
    http_failure_message [of "\<lparr>status = 200, json = Inr JNull\<rparr>" null_read_message
      initial_state "Rejects ''Failed to fetch''" "''Failed to fetch''" JNull]
  by (simp add: ok_def)

section \<open>When requests are issued\<close>

lemma render_initial: "AdminDashboard initial_state = LoadingSpinner"
  by (simp add: AdminDashboard_def initial_state_def)

lemma begin_initial: "fetchWaitlist_begin initial_state = initial_state"
  by (simp add: fetchWaitlist_begin_def setLoading_def setError_def initial_state_def)

lemma step_initial:
  assumes "step tmsg e initial_component = Some c"
  shows "e = Mount \<and> c = \<lparr>state = initial_state, effect_ran = True, issued = 1, settled = 0\<rparr>"
  using assms
  by (cases e)
    (simp_all add: initial_component_def call_fetchWaitlist_def begin_initial render_initial)

lemma step_after_mount:
  assumes "effect_ran c" and "step tmsg e c = Some c'"
  shows "e \<noteq> Mount \<and> effect_ran c' \<and> issued c' = issued c + (if is_click e then 1 else 0)"
  using assms by (cases e) (auto simp: call_fetchWaitlist_def split: if_splits)

lemma run_after_mount:
  assumes "effect_ran c" and "run tmsg es c = Some c'"
  shows "Mount \<notin> set es \<and> issued c' = issued c + length (filter is_click es)"
  using assms
proof (induction es arbitrary: c)
  case Nil
  then show ?case by simp
next
  case (Cons e es)
  from Cons.prems(2) obtain c1
    where s: "step tmsg e c = Some c1" and r: "run tmsg es c1 = Some c'"
    by (auto split: option.splits)
  from step_after_mount [OF Cons.prems(1) s] Cons.IH [OF _ r] show ?case
    by auto
qed

text \<open>
  C8. Mounting issues one request. In every course of events of the component, the first
  event is the mount and it happens once; the number of requests issued is one for the
  mount plus one for each click on "Refresh" or "Try Again": a settling request issues
  none.
\<close>

theorem fetch_on_mount_and_click_only:
  assumes "run tmsg evs initial_component = Some c"
  shows "map_option issued (run tmsg [Mount] initial_component) = Some 1
    \<and> (evs \<noteq> [] \<longrightarrow> hd evs = Mount \<and> Mount \<notin> set (tl evs))
    \<and> issued c = (if evs = [] then 0 else 1) + length (filter is_click evs)"
proof -
  have m: "map_option issued (run tmsg [Mount] initial_component) = Some 1"
    by (simp add: initial_component_def call_fetchWaitlist_def)
  show ?thesis
  proof (cases evs)
    case Nil
    with assms have "issued c = 0" by (auto simp: initial_component_def)
    with Nil m show ?thesis by simp
  next
    case (Cons e es)
    with assms obtain c1 where s: "step tmsg e initial_component = Some c1"
      and r: "run tmsg es c1 = Some c"
      by (auto split: option.splits)
    from step_initial [OF s] have e: "e = Mount" and c1: "effect_ran c1" "issued c1 = 1"
      by simp_all
    from run_after_mount [OF c1(1) r] c1(2) e Cons m show ?thesis by simp
  qed
qed

theorem fetch_on_mount_and_click_only_witness:
  "map_option issued
     (run null_read_message
        [Mount, Settle (Resolves \<lparr>status = 500, json = Inl []\<rparr>), Click TryAgain,
         Settle (Resolves \<lparr>status = 200, json = Inr (JObject [])\<rparr>), Click Refresh]
        initial_component) = Some 3"
proof -
  have r: "run null_read_message
        [Mount, Settle (Resolves \<lparr>status = 500, json = Inl []\<rparr>), Click TryAgain,
         Settle (Resolves \<lparr>status = 200, json = Inr (JObject [])\<rparr>), Click Refresh]
        initial_component
      = Some \<lparr>state = \<lparr>entries = JArray [], loading = True, error = None\<rparr>,
              effect_ran = True, issued = 3, settled = 2\<rparr>"
    by (simp add: initial_component_def initial_state_def call_fetchWaitlist_def fetch_defs
        ok_def AdminDashboard_def page_def data_or_empty_def)
  from fetch_on_mount_and_click_only [OF r] r show ?thesis by simp
qed

section \<open>Before the first request settles\<close>

lemma step_settled_mono: "step tmsg e c = Some c' \<Longrightarrow> settled c \<le> settled c'"
  by (cases e) (auto simp: call_fetchWaitlist_def split: if_splits)

lemma run_settled_mono: "run tmsg es c = Some c' \<Longrightarrow> settled c \<le> settled c'"
proof (induction es arbitrary: c)
  case Nil
  then show ?case by simp
next
  case (Cons e es)
  then obtain c1 where s: "step tmsg e c = Some c1" and r: "run tmsg es c1 = Some c'"
    by (auto split: option.splits)
  from step_settled_mono [OF s] Cons.IH [OF r] show ?case by simp
qed

lemma step_unsettled:
  assumes "state c = initial_state" and "step tmsg e c = Some c'" and "settled c' = 0"
  shows "state c' = initial_state"
  using assms
  by (cases e) (auto simp: call_fetchWaitlist_def begin_initial render_initial split: if_splits)

lemma run_unsettled:
  assumes "state c = initial_state" and "run tmsg es c = Some c'" and "settled c' = 0"
  shows "state c' = initial_state"
  using assms
proof (induction es arbitrary: c)
  case Nil
  then show ?case by simp
next
  case (Cons e es)
  from Cons.prems(2) obtain c1
    where s: "step tmsg e c = Some c1" and r: "run tmsg es c1 = Some c'"
    by (auto split: option.splits)
  from run_settled_mono [OF r] Cons.prems(3) have "settled c1 = 0" by simp
  from step_unsettled [OF Cons.prems(1) s this] have "state c1 = initial_state" .
  from Cons.IH [OF this r Cons.prems(3)] show ?case .
qed

text \<open>
  C9. The component starts with no entries, \<open>loading\<close> true and no error, and renders
  the spinner. As long as no request has settled, whatever events have happened, the
  spinner is what is rendered: neither the error banner nor the empty-state placeholder.
\<close>

theorem spinner_until_first_settle:
  assumes "run tmsg evs initial_component = Some c" and "settled c = 0"
  shows "entries initial_state = JArray [] \<and> loading initial_state \<and> error initial_state = None
    \<and> state initial_component = initial_state
    \<and> AdminDashboard initial_state = LoadingSpinner
    \<and> AdminDashboard (state c) = LoadingSpinner
    \<and> \<not> shows_error_banner (AdminDashboard (state c))
    \<and> \<not> shows_empty_state (AdminDashboard (state c))"
proof -
  have "state initial_component = initial_state"
    by (simp add: initial_component_def)
  from run_unsettled [OF this assms] have "state c = initial_state" .
  then show ?thesis
    by (simp add: render_initial) (simp add: initial_state_def initial_component_def)
qed

theorem spinner_until_first_settle_witness:
  "map_option settled (run null_read_message [Mount] initial_component) = Some 0
   \<and> map_option (AdminDashboard \<circ> state) (run null_read_message [Mount] initial_component)
       = Some LoadingSpinner"
proof -
  have r: "run null_read_message [Mount] initial_component
      = Some \<lparr>state = initial_state, effect_ran = True, issued = 1, settled = 0\<rparr>"
    by (simp add: initial_component_def call_fetchWaitlist_def begin_initial)
  from spinner_until_first_settle [OF r] r show ?thesis by simp
qed

end
